theory Spec2Isabelle
  imports Complex_Main
begin

section \<open>Data model (types.ts)\<close>

text \<open>
  The TypeScript enums and interfaces of \<^verbatim>\<open>types.ts\<close>. A \<^verbatim>\<open>number\<close> that is a
  sensor channel is a real number (a finite JavaScript number; the special value NaN
  is not part of the model), \<^verbatim>\<open>Date.now()\<close> is an integer.
\<close>

datatype DrivingMode = TRAFFIC | HIGHWAY | DEPOT

datatype RiskLevel = LOW | MEDIUM | HIGH

record SensorData =
  leftDistance :: real
  rightDistance :: real
  closingSpeed :: real
  vehicleSpeed :: real
  drivingMode :: DrivingMode

text \<open>
  The value that \<^verbatim>\<open>JSON.parse\<close> returns. An object is the list of its own properties;
  a property that is not listed is \<^verbatim>\<open>undefined\<close>.
\<close>

datatype json =
    JNull
  | JBool bool
  | JNumber real
  | JString string
  | JArray "json list"
  | JObject "(string \<times> json) list"

text \<open>
  A string enum is its string at run time: \<^verbatim>\<open>RiskLevel.LOW = 'LOW'\<close>.
\<close>

fun enum_value :: "RiskLevel \<Rightarrow> json" where
  "enum_value LOW = JString ''LOW''"
| "enum_value MEDIUM = JString ''MEDIUM''"
| "enum_value HIGH = JString ''HIGH''"

definition is_RiskLevel :: "json \<Rightarrow> bool" where
  "is_RiskLevel v =
     (v = enum_value LOW \<or> v = enum_value MEDIUM \<or> v = enum_value HIGH)"

text \<open>
  \<^verbatim>\<open>AssessmentResult\<close>. The interface declares \<^verbatim>\<open>riskLevel: RiskLevel\<close> and
  \<^verbatim>\<open>explanation: string\<close>, and \<^verbatim>\<open>assessSafetyRisk\<close> fills both from the parsed
  response with an unchecked cast (\<^verbatim>\<open>resultJson.riskLevel as RiskLevel\<close>), so at run
  time each of them holds whatever value the response carried. The record keeps the
  run-time value.
\<close>

record AssessmentResult =
  riskLevel :: json
  explanation :: json
  timestamp :: int
  data :: SensorData

section \<open>The classification service (geminiService.ts)\<close>

datatype error = Error string | SyntaxError | TypeError

text \<open>
  What \<^verbatim>\<open>await ai.models.generateContent(...)\<close> does: it throws, or it returns a
  response whose \<^verbatim>\<open>text\<close> is a string or \<^verbatim>\<open>undefined\<close>.
\<close>

datatype engine_reply = CallFails error | Reply "string option"

text \<open>JavaScript truthiness of a parsed value (the operand test of \<^verbatim>\<open>||\<close>).\<close>

fun truthy :: "json \<Rightarrow> bool" where
  "truthy JNull = False"
| "truthy (JBool b) = b"
| "truthy (JNumber x) = (x \<noteq> 0)"
| "truthy (JString s) = (s \<noteq> [])"
| "truthy (JArray xs) = True"
| "truthy (JObject kvs) = True"

text \<open>
  \<^verbatim>\<open>a || b\<close> where \<^verbatim>\<open>a\<close> is a property read: \<^verbatim>\<open>None\<close> is \<^verbatim>\<open>undefined\<close>.
\<close>

fun js_or :: "json option \<Rightarrow> json \<Rightarrow> json" where
  "js_or None b = b"
| "js_or (Some a) b = (if truthy a then a else b)"

text \<open>
  The property reads \<^verbatim>\<open>resultJson.riskLevel\<close> and \<^verbatim>\<open>resultJson.explanation\<close>: on
  \<^verbatim>\<open>null\<close> the read throws a TypeError, on an object it is the own property or
  \<^verbatim>\<open>undefined\<close>, and a number, string, boolean or array has neither property.
\<close>

fun get_property :: "json \<Rightarrow> string \<Rightarrow> error + json option" where
  "get_property JNull k = Inl TypeError"
| "get_property (JObject kvs) k = Inr (map_of kvs k)"
| "get_property v k = Inr None"

text \<open>\<^verbatim>\<open>response.text || "{}"\<close>\<close>

fun text_or_default :: "string option \<Rightarrow> string" where
  "text_or_default None = ''{}''"
| "text_or_default (Some s) = (if s = [] then ''{}'' else s)"

text \<open>
  The body of the \<^verbatim>\<open>try\<close> block of \<^verbatim>\<open>assessSafetyRisk\<close>. \<^verbatim>\<open>JSON.parse\<close> is the
  parameter \<open>parse\<close>, with \<open>None\<close> for the SyntaxError it throws; \<open>now\<close> is the value
  of \<^verbatim>\<open>Date.now()\<close>.
\<close>

definition assessSafetyRisk_try ::
  "(string \<Rightarrow> json option) \<Rightarrow> engine_reply \<Rightarrow> int \<Rightarrow> SensorData \<Rightarrow> error + AssessmentResult"
where
  "assessSafetyRisk_try parse reply now d =
     (case reply of
        CallFails e \<Rightarrow> Inl e
      | Reply text \<Rightarrow>
          (case parse (text_or_default text) of
             None \<Rightarrow> Inl SyntaxError
           | Some resultJson \<Rightarrow>
               (case get_property resultJson ''riskLevel'' of
                  Inl e \<Rightarrow> Inl e
                | Inr rl \<Rightarrow>
                    (case get_property resultJson ''explanation'' of
                       Inl e \<Rightarrow> Inl e
                     | Inr ex \<Rightarrow>
                         Inr \<lparr> riskLevel = js_or rl (enum_value LOW),
                               explanation = js_or ex (JString ''Unable to generate assessment.''),
                               timestamp = now,
                               data = d \<rparr>))))"

text \<open>
  \<^verbatim>\<open>assessSafetyRisk\<close>: whatever the \<^verbatim>\<open>try\<close> block throws is caught, logged and
  replaced by \<^verbatim>\<open>new Error("Failed to assess safety risk.")\<close>.
\<close>

definition assessSafetyRisk ::
  "(string \<Rightarrow> json option) \<Rightarrow> engine_reply \<Rightarrow> int \<Rightarrow> SensorData \<Rightarrow> error + AssessmentResult"
where
  "assessSafetyRisk parse reply now d =
     (case assessSafetyRisk_try parse reply now d of
        Inl e \<Rightarrow> Inl (Error ''Failed to assess safety risk.'')
      | Inr result \<Rightarrow> Inr result)"

text \<open>
  What \<^verbatim>\<open>assessSafetyRisk\<close> writes to the console: its \<^verbatim>\<open>catch\<close> block logs the
  error it caught, under the label \<^verbatim>\<open>"Gemini API Error:"\<close>.
\<close>

datatype effect = ConsoleError "string option" error | PlayAlertTone json

definition assessSafetyRisk_console ::
  "(string \<Rightarrow> json option) \<Rightarrow> engine_reply \<Rightarrow> int \<Rightarrow> SensorData \<Rightarrow> effect list"
where
  "assessSafetyRisk_console parse reply now d =
     (case assessSafetyRisk_try parse reply now d of
        Inl e \<Rightarrow> [ConsoleError (Some ''Gemini API Error:'') e]
      | Inr result \<Rightarrow> [])"

section \<open>The dashboard component (App.tsx)\<close>

text \<open>The \<^verbatim>\<open>useState\<close> cells of \<^verbatim>\<open>App\<close>, with their initial values.\<close>

record app_state =
  sensorData :: SensorData
  assessment :: "AssessmentResult option"
  history :: "AssessmentResult list"
  isAnalyzing :: bool
  autoSimulate :: bool
  audioEnabled :: bool

definition initial_sensorData :: SensorData where
  "initial_sensorData =
     \<lparr> leftDistance = 120, rightDistance = 115, closingSpeed = 1 / 2,
       vehicleSpeed = 45, drivingMode = TRAFFIC \<rparr>"

definition initial_state :: app_state where
  "initial_state =
     \<lparr> sensorData = initial_sensorData, assessment = None, history = [],
       isAnalyzing = False, autoSimulate = False, audioEnabled = False \<rparr>"

subsection \<open>playAlertTone\<close>

text \<open>
  The sound that a call \<^verbatim>\<open>playAlertTone(level)\<close> starts: none while audio is disabled,
  the double beep for HIGH, the chime for MEDIUM, and none for any other level (the
  oscillator is created and never started).
\<close>

datatype tone = UrgentDoubleBeep | CautionaryChime

definition playAlertTone :: "bool \<Rightarrow> json \<Rightarrow> tone option" where
  "playAlertTone enabled level =
     (if \<not> enabled then None
      else if level = enum_value HIGH then Some UrgentDoubleBeep
      else if level = enum_value MEDIUM then Some CautionaryChime
      else None)"

subsection \<open>handleAssessment\<close>

text \<open>
  One call of \<^verbatim>\<open>handleAssessment(data)\<close>, from \<^verbatim>\<open>setIsAnalyzing(true)\<close> to the
  \<^verbatim>\<open>finally\<close> block, run without interleaving. \<open>outcome\<close> is how the returned promise
  settles (\<open>Inl\<close>: rejected), \<open>state\<close> the component state afterwards, \<open>effects\<close> the
  console lines and the calls of \<^verbatim>\<open>playAlertTone\<close>, in order.
\<close>

record handler_run =
  outcome :: "error + unit"
  state :: app_state
  effects :: "effect list"

definition handleAssessment ::
  "(string \<Rightarrow> json option) \<Rightarrow> engine_reply \<Rightarrow> int \<Rightarrow> SensorData \<Rightarrow> app_state \<Rightarrow> handler_run"
where
  "handleAssessment parse reply now d st =
     (let st1 = st\<lparr>isAnalyzing := True\<rparr>;
          console = assessSafetyRisk_console parse reply now d
      in case assessSafetyRisk parse reply now d of
           Inr result \<Rightarrow>
             (let st2 = st1\<lparr>assessment := Some result\<rparr>;
                  st3 = st2\<lparr>history := take 20 (result # history st2)\<rparr>;
                  alert = (if riskLevel result \<noteq> enum_value LOW
                           then [PlayAlertTone (riskLevel result)] else [])
              in \<lparr> outcome = Inr (), state = st3\<lparr>isAnalyzing := False\<rparr>,
                   effects = console @ alert \<rparr>)
         | Inl err \<Rightarrow>
             \<lparr> outcome = Inr (), state = st1\<lparr>isAnalyzing := False\<rparr>,
               effects = console @ [ConsoleError None err] \<rparr>)"

text \<open>
  A sequence of calls of \<^verbatim>\<open>handleAssessment\<close>, in the order in which they
  complete. A call is the engine's reply, the clock and the reading. A call writes the
  current assessment and the history only in its continuation after the \<^verbatim>\<open>await\<close>,
  which runs without interruption, so for these two cells overlapping calls behave as
  calls run one after the other in the order of their completion.
\<close>

type_synonym assess_call = "engine_reply \<times> int \<times> SensorData"

fun run_assessments ::
  "(string \<Rightarrow> json option) \<Rightarrow> assess_call list \<Rightarrow> app_state \<Rightarrow> app_state"
where
  "run_assessments parse [] st = st"
| "run_assessments parse ((reply, now, d) # calls) st =
     run_assessments parse calls (state (handleAssessment parse reply now d st))"

fun results_of ::
  "(string \<Rightarrow> json option) \<Rightarrow> assess_call list \<Rightarrow> (error + AssessmentResult) list"
where
  "results_of parse [] = []"
| "results_of parse ((reply, now, d) # calls) =
     assessSafetyRisk parse reply now d # results_of parse calls"

subsection \<open>The auto-simulation tick\<close>

text \<open>
  The state updater of the interval callback; \<open>r1\<close> to \<open>r4\<close> are the four values of
  \<^verbatim>\<open>Math.random()\<close>, in the order of the calls.
\<close>

definition tick_reading :: "SensorData \<Rightarrow> real \<Rightarrow> real \<Rightarrow> real \<Rightarrow> real \<Rightarrow> SensorData" where
  "tick_reading prev r1 r2 r3 r4 =
     prev\<lparr> leftDistance := max 10 (min 300 (leftDistance prev + (r1 * 40 - 20))),
           rightDistance := max 10 (min 300 (rightDistance prev + (r2 * 40 - 20))),
           closingSpeed := max 0 (min 15 (closingSpeed prev + (r3 * 4 - 2))),
           vehicleSpeed := max 0 (min 100 (vehicleSpeed prev + (r4 * 15 - 7))) \<rparr>"

text \<open>
  One tick: the new reading replaces the held one and is handed to
  \<^verbatim>\<open>handleAssessment\<close>.
\<close>

definition simulation_tick ::
  "(string \<Rightarrow> json option) \<Rightarrow> real \<Rightarrow> real \<Rightarrow> real \<Rightarrow> real \<Rightarrow> engine_reply \<Rightarrow> int \<Rightarrow>
     app_state \<Rightarrow> handler_run"
where
  "simulation_tick parse r1 r2 r3 r4 reply now st =
     (let newData = tick_reading (sensorData st) r1 r2 r3 r4
      in handleAssessment parse reply now newData (st\<lparr>sensorData := newData\<rparr>))"

subsection \<open>updateSensor\<close>

text \<open>
  \<^verbatim>\<open>updateSensor(key, value)\<close> builds \<^verbatim>\<open>{ ...prev, [key]: value }\<close>. Its callers pass a
  number with each of the four numeric keys and a \<^verbatim>\<open>DrivingMode\<close> with
  \<^verbatim>\<open>'drivingMode'\<close>; \<open>sensor_update\<close> is a key with a value of its field's type.
\<close>

datatype sensor_key =
  Key_leftDistance | Key_rightDistance | Key_closingSpeed | Key_vehicleSpeed | Key_drivingMode

datatype sensor_value = Number real | Mode DrivingMode

datatype sensor_update =
    Set_leftDistance real
  | Set_rightDistance real
  | Set_closingSpeed real
  | Set_vehicleSpeed real
  | Set_drivingMode DrivingMode

fun key_of :: "sensor_update \<Rightarrow> sensor_key" where
  "key_of (Set_leftDistance v) = Key_leftDistance"
| "key_of (Set_rightDistance v) = Key_rightDistance"
| "key_of (Set_closingSpeed v) = Key_closingSpeed"
| "key_of (Set_vehicleSpeed v) = Key_vehicleSpeed"
| "key_of (Set_drivingMode m) = Key_drivingMode"

fun value_of :: "sensor_update \<Rightarrow> sensor_value" where
  "value_of (Set_leftDistance v) = Number v"
| "value_of (Set_rightDistance v) = Number v"
| "value_of (Set_closingSpeed v) = Number v"
| "value_of (Set_vehicleSpeed v) = Number v"
| "value_of (Set_drivingMode m) = Mode m"

text \<open>The property read \<^verbatim>\<open>reading[key]\<close>.\<close>

fun get_field :: "SensorData \<Rightarrow> sensor_key \<Rightarrow> sensor_value" where
  "get_field r Key_leftDistance = Number (leftDistance r)"
| "get_field r Key_rightDistance = Number (rightDistance r)"
| "get_field r Key_closingSpeed = Number (closingSpeed r)"
| "get_field r Key_vehicleSpeed = Number (vehicleSpeed r)"
| "get_field r Key_drivingMode = Mode (drivingMode r)"

fun updateSensor :: "sensor_update \<Rightarrow> SensorData \<Rightarrow> SensorData" where
  "updateSensor (Set_leftDistance v) prev = prev\<lparr>leftDistance := v\<rparr>"
| "updateSensor (Set_rightDistance v) prev = prev\<lparr>rightDistance := v\<rparr>"
| "updateSensor (Set_closingSpeed v) prev = prev\<lparr>closingSpeed := v\<rparr>"
| "updateSensor (Set_vehicleSpeed v) prev = prev\<lparr>vehicleSpeed := v\<rparr>"
| "updateSensor (Set_drivingMode m) prev = prev\<lparr>drivingMode := m\<rparr>"

subsection \<open>Notions used in the statements\<close>

text \<open>The results of the calls that completed, in order.\<close>

fun successes :: "(error + 'a) list \<Rightarrow> 'a list" where
  "successes [] = []"
| "successes (Inl e # xs) = successes xs"
| "successes (Inr r # xs) = r # successes xs"

text \<open>The current assessment is the newest entry of the history, or both are empty.\<close>

definition head_is_current :: "app_state \<Rightarrow> bool" where
  "head_is_current st =
     (assessment st = (case history st of [] \<Rightarrow> None | r # rs \<Rightarrow> Some r))"

section \<open>Sample inputs\<close>

text \<open>
  A finite fragment of \<^verbatim>\<open>JSON.parse\<close> for the worked examples: it gives the value of
  \<^verbatim>\<open>JSON.parse\<close> on the texts listed and reports every other text as a syntax error.
\<close>

definition sample_parse :: "string \<Rightarrow> json option" where
  \<open>sample_parse s =
     (if s = ''{}'' then Some (JObject [])
      else if s = ''null'' then Some JNull
      else if s = ''{"riskLevel":"HIGH"}'' then Some (JObject [(''riskLevel'', JString ''HIGH'')])
      else if s = ''{"riskLevel":"HIGH","explanation":"close"}''
        then Some (JObject [(''riskLevel'', JString ''HIGH''), (''explanation'', JString ''close'')])
      else if s = ''{"riskLevel":"CRITICAL","explanation":"close"}''
        then Some (JObject [(''riskLevel'', JString ''CRITICAL''), (''explanation'', JString ''close'')])
      else None)\<close>

section \<open>Basic facts about the service and the handler\<close>

lemma take_append_take: "take n (xs @ take n ys) = take n (xs @ ys)"
  by (simp add: min_def)

lemma successes_map_Inr: "successes (map Inr rs) = rs"
  by (induction rs) simp_all

lemma assess_empty_object:
  "parse (text_or_default body) = Some (JObject []) \<Longrightarrow>
   assessSafetyRisk parse (Reply body) now d =
     Inr \<lparr> riskLevel = enum_value LOW,
           explanation = JString ''Unable to generate assessment.'',
           timestamp = now, data = d \<rparr>"
  by (simp add: assessSafetyRisk_def assessSafetyRisk_try_def)

lemma console_success:
  "assessSafetyRisk parse reply now d = Inr r \<Longrightarrow> assessSafetyRisk_console parse reply now d = []"
  by (auto simp: assessSafetyRisk_def assessSafetyRisk_console_def split: sum.splits)

lemma state_success:
  "assessSafetyRisk parse reply now d = Inr r \<Longrightarrow>
   state (handleAssessment parse reply now d st) =
     st\<lparr>assessment := Some r, history := take 20 (r # history st), isAnalyzing := False\<rparr>"
  by (simp add: handleAssessment_def Let_def)

lemma state_failure:
  "assessSafetyRisk parse reply now d = Inl e \<Longrightarrow>
   state (handleAssessment parse reply now d st) = st\<lparr>isAnalyzing := False\<rparr>"
  by (simp add: handleAssessment_def Let_def)

lemma sensorData_handleAssessment:
  "sensorData (state (handleAssessment parse reply now d st)) = sensorData st"
  by (cases "assessSafetyRisk parse reply now d") (simp_all add: state_success state_failure)

lemma assess_failure:
  "reply = CallFails e \<or> (reply = Reply body \<and> parse (text_or_default body) = None) \<Longrightarrow>
   assessSafetyRisk parse reply now d = Inl (Error ''Failed to assess safety risk.'')"
  by (auto simp: assessSafetyRisk_def assessSafetyRisk_try_def)

lemma assess_HIGH:
  \<open>assessSafetyRisk sample_parse (Reply (Some ''{"riskLevel":"HIGH","explanation":"close"}''))
       now d =
     Inr \<lparr> riskLevel = JString ''HIGH'', explanation = JString ''close'',
           timestamp = now, data = d \<rparr>\<close>
  by (simp add: sample_parse_def assessSafetyRisk_def assessSafetyRisk_try_def)

text \<open>
  The text \<^verbatim>\<open>null\<close> parses, and reading a property of the parsed value throws: the
  call fails like one whose text does not parse.
\<close>

lemma null_response_fails:
  "parse (text_or_default body) = Some JNull \<Longrightarrow>
   assessSafetyRisk parse (Reply body) now d = Inl (Error ''Failed to assess safety risk.'')"
  by (simp add: assessSafetyRisk_def assessSafetyRisk_try_def)

text \<open>While audio is disabled a call of \<^verbatim>\<open>playAlertTone\<close> starts no sound.\<close>

lemma playAlertTone_disabled: "playAlertTone False level = None"
  by (simp add: playAlertTone_def)

lemma playAlertTone_enabled:
  "playAlertTone True level =
     (if level = enum_value HIGH then Some UrgentDoubleBeep
      else if level = enum_value MEDIUM then Some CautionaryChime else None)"
  by (simp add: playAlertTone_def)

section \<open>Results of the classification service\<close>

text \<open>
  C2, as stated, at the response \<^verbatim>\<open>{"riskLevel":"HIGH"}\<close>: it parses and has no
  \<^verbatim>\<open>explanation\<close>, and the result keeps the risk level HIGH; only the explanation is
  the fallback text.
\<close>

theorem missing_explanation_keeps_riskLevel:
  \<open>sample_parse ''{"riskLevel":"HIGH"}'' = Some (JObject [(''riskLevel'', JString ''HIGH'')])
   \<and> get_property (JObject [(''riskLevel'', JString ''HIGH'')]) ''explanation'' = Inr None
   \<and> assessSafetyRisk sample_parse (Reply (Some ''{"riskLevel":"HIGH"}'')) 7 initial_sensorData =
       Inr \<lparr> riskLevel = JString ''HIGH'',
             explanation = JString ''Unable to generate assessment.'',
             timestamp = 7, data = initial_sensorData \<rparr>
   \<and> JString ''HIGH'' \<noteq> enum_value LOW\<close>
  by (simp add: sample_parse_def assessSafetyRisk_def assessSafetyRisk_try_def)

text \<open>
  C2, amended. When the response text parses to a value other than \<^verbatim>\<open>null\<close>,
  \<^verbatim>\<open>assessSafetyRisk\<close> returns a result and raises no error. Each field is defaulted on
  its own: the risk level is LOW when \<^verbatim>\<open>riskLevel\<close> is missing, and the explanation is
  the fallback text when \<^verbatim>\<open>explanation\<close> is missing. The result carries the clock and
  the reading of the call.
\<close>

theorem missing_fields_defaulted:
  assumes "parse (text_or_default body) = Some v" and "v \<noteq> JNull"
  shows "\<exists>r. assessSafetyRisk parse (Reply body) now d = Inr r
       \<and> (get_property v ''riskLevel'' = Inr None \<longrightarrow> riskLevel r = enum_value LOW)
       \<and> (get_property v ''explanation'' = Inr None \<longrightarrow>
            explanation r = JString ''Unable to generate assessment.'')
       \<and> timestamp r = now \<and> data r = d"
  using assms by (cases v) (simp_all add: assessSafetyRisk_def assessSafetyRisk_try_def)

text \<open>The empty object: both fields are missing, and both are defaulted.\<close>

theorem missing_fields_defaulted_witness:
  "assessSafetyRisk sample_parse (Reply (Some ''{}'')) 7 initial_sensorData =
     Inr \<lparr> riskLevel = enum_value LOW,
           explanation = JString ''Unable to generate assessment.'',
           timestamp = 7, data = initial_sensorData \<rparr>"
proof -
  have h1: "sample_parse (text_or_default (Some ''{}'')) = Some (JObject [])"
    by (simp add: sample_parse_def)
  have h2: "JObject [] \<noteq> JNull" by simp
  from missing_fields_defaulted [where parse = sample_parse and body = "Some ''{}''"
      and v = "JObject []" and now = 7 and d = initial_sensorData, OF h1 h2]
  obtain r where r: "assessSafetyRisk sample_parse (Reply (Some ''{}'')) 7 initial_sensorData = Inr r"
    and "riskLevel r = enum_value LOW"
    and "explanation r = JString ''Unable to generate assessment.''"
    and "timestamp r = 7" and "data r = initial_sensorData"
    by auto
  then have "r = \<lparr> riskLevel = enum_value LOW,
           explanation = JString ''Unable to generate assessment.'',
           timestamp = 7, data = initial_sensorData \<rparr>"
    by (cases r) simp
  with r show ?thesis by simp
qed

text \<open>
  C5. The risk level of a result is not always one of LOW, MEDIUM and HIGH: at the
  response \<^verbatim>\<open>{"riskLevel":"CRITICAL","explanation":"close"}\<close> the call succeeds and
  the risk level of its result is the string \<^verbatim>\<open>CRITICAL\<close>, which is none of the
  three values of the enum \<^verbatim>\<open>RiskLevel\<close> that the result type declares.
\<close>

theorem unknown_riskLevel_passes_through:
  \<open>assessSafetyRisk sample_parse (Reply (Some ''{"riskLevel":"CRITICAL","explanation":"close"}''))
       7 initial_sensorData =
     Inr \<lparr> riskLevel = JString ''CRITICAL'', explanation = JString ''close'',
           timestamp = 7, data = initial_sensorData \<rparr>
   \<and> \<not> is_RiskLevel (JString ''CRITICAL'')\<close>
  by (simp add: sample_parse_def assessSafetyRisk_def assessSafetyRisk_try_def is_RiskLevel_def)

text \<open>
  C10. When the call succeeds and the response text is absent or empty, and
  \<^verbatim>\<open>JSON.parse("{}")\<close> is the empty object, \<^verbatim>\<open>assessSafetyRisk\<close> raises no error: it
  returns the default result, risk level LOW with the fallback explanation, which is
  also what it returns for the text \<^verbatim>\<open>{}\<close>.
\<close>

theorem empty_text_gives_default:
  assumes "parse ''{}'' = Some (JObject [])"
    and "body = None \<or> body = Some ''''"
  shows "assessSafetyRisk parse (Reply body) now d =
           Inr \<lparr> riskLevel = enum_value LOW,
                 explanation = JString ''Unable to generate assessment.'',
                 timestamp = now, data = d \<rparr>
       \<and> assessSafetyRisk parse (Reply body) now d =
           assessSafetyRisk parse (Reply (Some ''{}'')) now d"
proof -
  from assms(2) have t: "text_or_default body = ''{}''" by auto
  have "assessSafetyRisk parse (Reply body) now d =
           Inr \<lparr> riskLevel = enum_value LOW,
                 explanation = JString ''Unable to generate assessment.'',
                 timestamp = now, data = d \<rparr>"
    by (rule assess_empty_object) (simp add: t assms(1))
  moreover have "assessSafetyRisk parse (Reply (Some ''{}'')) now d =
           Inr \<lparr> riskLevel = enum_value LOW,
                 explanation = JString ''Unable to generate assessment.'',
                 timestamp = now, data = d \<rparr>"
    by (rule assess_empty_object) (simp add: assms(1))
  ultimately show ?thesis by simp
qed

text \<open>An absent text and an empty text, with the sample parser.\<close>

theorem empty_text_gives_default_witness:
  "assessSafetyRisk sample_parse (Reply None) 7 initial_sensorData =
     Inr \<lparr> riskLevel = enum_value LOW,
           explanation = JString ''Unable to generate assessment.'',
           timestamp = 7, data = initial_sensorData \<rparr>
   \<and> assessSafetyRisk sample_parse (Reply (Some '''')) 7 initial_sensorData =
     Inr \<lparr> riskLevel = enum_value LOW,
           explanation = JString ''Unable to generate assessment.'',
           timestamp = 7, data = initial_sensorData \<rparr>"
proof -
  have h: "sample_parse ''{}'' = Some (JObject [])" by (simp add: sample_parse_def)
  have n: "(None :: string option) = None \<or> None = Some ''''" by simp
  have e: "Some '''' = None \<or> Some '''' = Some ''''" by simp
  show ?thesis
    using empty_text_gives_default [where parse = sample_parse and body = None
        and now = 7 and d = initial_sensorData, OF h n]
      empty_text_gives_default [where parse = sample_parse and body = "Some []"
        and now = 7 and d = initial_sensorData, OF h e]
    by simp
qed

section \<open>The handler\<close>

text \<open>
  C1, as stated, at a call that fails in transport: \<^verbatim>\<open>assessSafetyRisk\<close> rejects, and
  the promise of \<^verbatim>\<open>handleAssessment\<close> is fulfilled, not rejected: its \<^verbatim>\<open>catch\<close> block
  logs the error and does not throw it again.
\<close>

theorem failed_call_not_propagated:
  "assessSafetyRisk sample_parse (CallFails (Error ''fetch failed'')) 7 initial_sensorData =
      Inl (Error ''Failed to assess safety risk.'')
   \<and> outcome (handleAssessment sample_parse (CallFails (Error ''fetch failed'')) 7
        initial_sensorData initial_state) = Inr ()
   \<and> \<not> isl (outcome (handleAssessment sample_parse (CallFails (Error ''fetch failed'')) 7
        initial_sensorData initial_state))"
  by (simp add: handleAssessment_def assessSafetyRisk_def assessSafetyRisk_try_def)

text \<open>
  C1, amended. When the classification call fails in transport, or its response text
  does not parse, \<^verbatim>\<open>assessSafetyRisk\<close> rejects with the error
  \<^verbatim>\<open>Failed to assess safety risk.\<close>; \<^verbatim>\<open>handleAssessment\<close> catches that error and logs it
  and its own promise is fulfilled; afterwards the busy flag is cleared, and the state
  is the state before the call with the busy flag cleared, so the current assessment
  and the history are as they were.
\<close>

theorem failed_call_changes_only_busy_flag:
  assumes "reply = CallFails e \<or> (reply = Reply body \<and> parse (text_or_default body) = None)"
  shows "assessSafetyRisk parse reply now d = Inl (Error ''Failed to assess safety risk.'')
       \<and> outcome (handleAssessment parse reply now d st) = Inr ()
       \<and> ConsoleError None (Error ''Failed to assess safety risk.'')
            \<in> set (effects (handleAssessment parse reply now d st))
       \<and> state (handleAssessment parse reply now d st) = st\<lparr>isAnalyzing := False\<rparr>
       \<and> isAnalyzing (state (handleAssessment parse reply now d st)) = False
       \<and> assessment (state (handleAssessment parse reply now d st)) = assessment st
       \<and> history (state (handleAssessment parse reply now d st)) = history st"
proof -
  have f: "assessSafetyRisk parse reply now d = Inl (Error ''Failed to assess safety risk.'')"
    using assms by (rule assess_failure)
  then have "state (handleAssessment parse reply now d st) = st\<lparr>isAnalyzing := False\<rparr>"
    by (rule state_failure)
  moreover have "outcome (handleAssessment parse reply now d st) = Inr ()"
    using f by (simp add: handleAssessment_def)
  moreover have "ConsoleError None (Error ''Failed to assess safety risk.'')
            \<in> set (effects (handleAssessment parse reply now d st))"
    using f by (simp add: handleAssessment_def)
  ultimately show ?thesis using f by simp
qed

text \<open>
  A response that is not JSON, arriving while the busy flag is set: the state afterwards
  is the initial state.
\<close>

theorem failed_call_changes_only_busy_flag_witness:
  "assessSafetyRisk sample_parse (Reply (Some ''<html>'')) 7 initial_sensorData =
      Inl (Error ''Failed to assess safety risk.'')
   \<and> outcome (handleAssessment sample_parse (Reply (Some ''<html>'')) 7 initial_sensorData
        (initial_state\<lparr>isAnalyzing := True\<rparr>)) = Inr ()
   \<and> state (handleAssessment sample_parse (Reply (Some ''<html>'')) 7 initial_sensorData
        (initial_state\<lparr>isAnalyzing := True\<rparr>)) = initial_state"
proof -
  have h: "Reply (Some ''<html>'') = CallFails SyntaxError
      \<or> (Reply (Some ''<html>'') = Reply (Some ''<html>'')
          \<and> sample_parse (text_or_default (Some ''<html>'')) = None)"
    by (simp add: sample_parse_def)
  show ?thesis
    using failed_call_changes_only_busy_flag [where parse = sample_parse
        and reply = "Reply (Some ''<html>'')" and body = "Some ''<html>''" and e = SyntaxError
        and now = 7 and d = initial_sensorData
        and st = "initial_state\<lparr>isAnalyzing := True\<rparr>", OF h]
    by (simp add: initial_state_def)
qed

text \<open>
  C6. After a call of \<^verbatim>\<open>handleAssessment\<close> that succeeds with result \<open>r\<close>, the handler
  has called \<^verbatim>\<open>playAlertTone\<close> once, with the risk level of \<open>r\<close>, when that level is not
  LOW, and has not called it when the level is LOW; it has done nothing else that is
  observable outside the state.
\<close>

theorem alert_iff_not_LOW:
  assumes "assessSafetyRisk parse reply now d = Inr r"
  shows "effects (handleAssessment parse reply now d st) =
           (if riskLevel r \<noteq> enum_value LOW then [PlayAlertTone (riskLevel r)] else [])"
  using assms console_success [OF assms] by (simp add: handleAssessment_def Let_def)

text \<open>A HIGH result is signalled; the default LOW result is not.\<close>

theorem alert_iff_not_LOW_witness:
  \<open>effects (handleAssessment sample_parse
       (Reply (Some ''{"riskLevel":"HIGH","explanation":"close"}'')) 7 initial_sensorData
       initial_state) = [PlayAlertTone (JString ''HIGH'')]
   \<and> effects (handleAssessment sample_parse (Reply (Some ''{}'')) 7 initial_sensorData
       initial_state) = []\<close>
proof -
  have low: "assessSafetyRisk sample_parse (Reply (Some ''{}'')) 7 initial_sensorData =
     Inr \<lparr> riskLevel = enum_value LOW,
           explanation = JString ''Unable to generate assessment.'',
           timestamp = 7, data = initial_sensorData \<rparr>"
    by (rule assess_empty_object) (simp add: sample_parse_def)
  show ?thesis
    using alert_iff_not_LOW [OF assess_HIGH, where st = initial_state]
      alert_iff_not_LOW [OF low, where st = initial_state]
    by simp
qed

lemma head_is_current_step:
  "head_is_current st \<Longrightarrow> head_is_current (state (handleAssessment parse reply now d st))"
  by (cases "assessSafetyRisk parse reply now d")
     (simp_all add: state_success state_failure head_is_current_def)

lemma head_is_current_run:
  "head_is_current st \<Longrightarrow> head_is_current (run_assessments parse calls st)"
  by (induction parse calls st rule: run_assessments.induct) (simp_all add: head_is_current_step)

text \<open>
  C9. After a call of \<^verbatim>\<open>handleAssessment\<close> that succeeds with result \<open>r\<close>, the current
  assessment is \<open>r\<close> and \<open>r\<close> is the first entry of the history. From the initial state,
  after any sequence of calls, failed ones included, the current assessment is the
  first entry of the history (and there is none while the history is empty).
\<close>

theorem assessment_is_head_of_history:
  assumes "assessSafetyRisk parse reply now d = Inr r"
  shows "assessment (state (handleAssessment parse reply now d st)) = Some r
       \<and> history (state (handleAssessment parse reply now d st)) = r # take 19 (history st)
       \<and> head_is_current (state (handleAssessment parse reply now d st))
       \<and> head_is_current (run_assessments parse calls initial_state)"
proof -
  have "head_is_current initial_state"
    by (simp add: head_is_current_def initial_state_def)
  then have "head_is_current (run_assessments parse calls initial_state)"
    by (rule head_is_current_run)
  then show ?thesis
    by (simp add: state_success [OF assms] head_is_current_def)
qed

text \<open>The first successful call from the initial state.\<close>

theorem assessment_is_head_of_history_witness:
  \<open>assessment (state (handleAssessment sample_parse
       (Reply (Some ''{"riskLevel":"HIGH","explanation":"close"}'')) 7 initial_sensorData
       initial_state)) =
     Some \<lparr> riskLevel = JString ''HIGH'', explanation = JString ''close'',
            timestamp = 7, data = initial_sensorData \<rparr>
   \<and> history (state (handleAssessment sample_parse
       (Reply (Some ''{"riskLevel":"HIGH","explanation":"close"}'')) 7 initial_sensorData
       initial_state)) =
     [\<lparr> riskLevel = JString ''HIGH'', explanation = JString ''close'',
            timestamp = 7, data = initial_sensorData \<rparr>]\<close>
  using assessment_is_head_of_history [OF assess_HIGH, where st = initial_state]
  by (simp add: initial_state_def)

section \<open>The history\<close>

lemma history_step:
  "length (history st) \<le> 20 \<Longrightarrow>
   history (state (handleAssessment parse reply now d st)) =
     take 20 (successes [assessSafetyRisk parse reply now d] @ history st)"
  by (cases "assessSafetyRisk parse reply now d") (simp_all add: state_success state_failure)

text \<open>
  After any sequence of calls the history is the results of the successful ones, newest
  first, in front of the old history, cut to 20 entries.
\<close>

lemma history_run:
  "length (history st) \<le> 20 \<Longrightarrow>
   history (run_assessments parse calls st) =
     take 20 (rev (successes (results_of parse calls)) @ history st)"
proof (induction calls arbitrary: st)
  case Nil
  then show ?case by simp
next
  case (Cons c calls)
  obtain reply now d where c: "c = (reply, now, d)" by (cases c)
  let ?st1 = "state (handleAssessment parse reply now d st)"
  have h1: "history ?st1 = take 20 (successes [assessSafetyRisk parse reply now d] @ history st)"
    using Cons.prems by (rule history_step)
  then have "length (history ?st1) \<le> 20" by simp
  then have "history (run_assessments parse calls ?st1) =
      take 20 (rev (successes (results_of parse calls)) @ history ?st1)"
    by (rule Cons.IH)
  also have "\<dots> = take 20 (rev (successes (results_of parse calls)) @
      successes [assessSafetyRisk parse reply now d] @ history st)"
    unfolding h1 by (rule take_append_take)
  finally show ?case
    by (cases "assessSafetyRisk parse reply now d") (simp_all add: c)
qed

lemma results_of_length: "length (results_of parse calls) = length calls"
  by (induction calls rule: results_of.induct) simp_all

lemma results_of_replicate:
  "results_of parse (replicate n (reply, now, d)) = replicate n (assessSafetyRisk parse reply now d)"
  by (induction n) simp_all

text \<open>
  C3. Starting from a history of at most 20 entries, after more than 20 calls of
  \<^verbatim>\<open>handleAssessment\<close> that all succeed, with results \<open>rs\<close> in the order of the calls,
  the history is the 20 most recent results, newest first; it has 20 entries, and after
  any number of those calls it has at most 20. Each successful call puts its result in
  front of the history and keeps the first 20 entries.
\<close>

theorem history_keeps_20_most_recent:
  assumes "results_of parse calls = map Inr rs"
    and "20 < length calls"
    and "length (history st) \<le> 20"
  shows "history (run_assessments parse calls st) = take 20 (rev rs)
       \<and> length (history (run_assessments parse calls st)) = 20
       \<and> (\<forall>n. length (history (run_assessments parse (take n calls) st)) \<le> 20)
       \<and> (\<forall>reply now d r st'. assessSafetyRisk parse reply now d = Inr r \<longrightarrow>
            history (state (handleAssessment parse reply now d st')) = take 20 (r # history st'))"
proof -
  have len: "length rs = length calls"
    using assms(1) results_of_length [of parse calls] by (metis length_map)
  have "history (run_assessments parse calls st) = take 20 (rev rs @ history st)"
    using history_run [OF assms(3), of parse calls] assms(1) by (simp add: successes_map_Inr)
  with len assms(2) have a: "history (run_assessments parse calls st) = take 20 (rev rs)"
    by simp
  have b: "length (history (run_assessments parse (take n calls) st)) \<le> 20" for n
    using history_run [OF assms(3), of parse "take n calls"] by simp
  have c: "history (state (handleAssessment parse reply now d st')) = take 20 (r # history st')"
    if "assessSafetyRisk parse reply now d = Inr r" for reply now d r st'
    using that by (simp add: state_success)
  from a b c len assms(2) show ?thesis by simp
qed

text \<open>
  Twenty-one successful calls from the initial state, the first at time 0 and the others
  at time 1: the result of the first call is the one dropped.
\<close>

theorem history_keeps_20_most_recent_witness:
  "history (run_assessments sample_parse
      ((Reply None, 0, initial_sensorData) # replicate 20 (Reply None, 1, initial_sensorData))
      initial_state) =
   replicate 20 \<lparr> riskLevel = enum_value LOW,
           explanation = JString ''Unable to generate assessment.'',
           timestamp = 1, data = initial_sensorData \<rparr>"
proof -
  let ?r = "\<lambda>t. \<lparr> riskLevel = enum_value LOW,
           explanation = JString ''Unable to generate assessment.'',
           timestamp = t, data = initial_sensorData \<rparr>"
  let ?calls = "(Reply None, 0, initial_sensorData) # replicate 20 (Reply None, 1, initial_sensorData)"
  have r: "assessSafetyRisk sample_parse (Reply None) t initial_sensorData = Inr (?r t)" for t
    by (rule assess_empty_object) (simp add: sample_parse_def)
  have h1: "results_of sample_parse ?calls = map Inr (?r 0 # replicate 20 (?r 1))"
    by (simp add: results_of_replicate r)
  have h2: "20 < length ?calls" by simp
  have h3: "length (history initial_state) \<le> 20" by (simp add: initial_state_def)
  show ?thesis
    using history_keeps_20_most_recent [OF h1 h2 h3] by simp
qed

section \<open>The sensor reading\<close>

text \<open>
  C4. Whatever the reading before a tick and whatever the four random values, every
  numeric channel of the reading after the tick is within its simulation bound:
  the two distances in [10, 300], the closing speed in [0, 15], the vehicle speed in
  [0, 100].
\<close>

theorem tick_reading_within_bounds:
  "10 \<le> leftDistance (tick_reading prev r1 r2 r3 r4)
   \<and> leftDistance (tick_reading prev r1 r2 r3 r4) \<le> 300
   \<and> 10 \<le> rightDistance (tick_reading prev r1 r2 r3 r4)
   \<and> rightDistance (tick_reading prev r1 r2 r3 r4) \<le> 300
   \<and> 0 \<le> closingSpeed (tick_reading prev r1 r2 r3 r4)
   \<and> closingSpeed (tick_reading prev r1 r2 r3 r4) \<le> 15
   \<and> 0 \<le> vehicleSpeed (tick_reading prev r1 r2 r3 r4)
   \<and> vehicleSpeed (tick_reading prev r1 r2 r3 r4) \<le> 100"
  by (simp add: tick_reading_def)

text \<open>
  C7. A tick leaves the driving mode of the reading as it was: the new reading has the
  driving mode of the old one, and the reading held after the tick is that new reading.
\<close>

theorem tick_keeps_drivingMode:
  "drivingMode (tick_reading prev r1 r2 r3 r4) = drivingMode prev
   \<and> sensorData (state (simulation_tick parse r1 r2 r3 r4 reply now st)) =
       tick_reading (sensorData st) r1 r2 r3 r4
   \<and> drivingMode (sensorData (state (simulation_tick parse r1 r2 r3 r4 reply now st))) =
       drivingMode (sensorData st)"
  by (simp add: simulation_tick_def Let_def sensorData_handleAssessment) (simp add: tick_reading_def)

text \<open>
  C8. \<^verbatim>\<open>updateSensor\<close> stores the supplied value, whatever it is, in the field named
  by the key, and every other field of the reading keeps its value.
\<close>

theorem updateSensor_replaces_one_field:
  "get_field (updateSensor u prev) (key_of u) = value_of u
   \<and> (\<forall>k. k \<noteq> key_of u \<longrightarrow> get_field (updateSensor u prev) k = get_field prev k)"
proof -
  have "get_field (updateSensor u prev) k = (if k = key_of u then value_of u else get_field prev k)" for k
    by (cases u; cases k) simp_all
  then show ?thesis by simp
qed

text \<open>
  A vehicle speed of 500, outside the range of the slider, is stored as it is; the left
  distance and the driving mode keep their values.
\<close>

theorem updateSensor_replaces_one_field_witness:
  "get_field (updateSensor (Set_vehicleSpeed 500) initial_sensorData) Key_vehicleSpeed = Number 500
   \<and> get_field (updateSensor (Set_vehicleSpeed 500) initial_sensorData) Key_leftDistance = Number 120
   \<and> get_field (updateSensor (Set_vehicleSpeed 500) initial_sensorData) Key_drivingMode = Mode TRAFFIC"
  using updateSensor_replaces_one_field [of "Set_vehicleSpeed 500" initial_sensorData]
  by (simp add: initial_sensorData_def)

end
